theory Spec2Isabelle
  imports Complex_Main
begin

unbundle bit_operations_syntax

section \<open>The command channel and the clock\<close>

text \<open>
  The MQTT client (paho) is an external library. A call \<open>mqtt_client.publish(topic, payload)\<close>
  either returns or raises; in both cases the client may have changed. The client is a value
  of an arbitrary type \<open>'ch\<close>, and \<open>publish\<close> is a parameter of every function that
  reaches it.

  \<open>time.time()\<close> is a reading of the wall clock. Every function that calls it takes the
  reading as an argument. Readings are exact real numbers (the source holds them in
  double-precision floats and subtracts them; the rounding of that subtraction is not
  modelled).

  Console output (\<open>print\<close>, taken not to raise) and OpenCV drawing are not modelled.
\<close>

datatype 'ch publish_result = Published 'ch | Raised 'ch

type_synonym 'ch publish = "'ch \<Rightarrow> string \<Rightarrow> string \<Rightarrow> 'ch publish_result"

section \<open>face\_guidance\_mqtt.py\<close>

subsection \<open>Module constants\<close>

definition TOO_CLOSE_THRESHOLD :: int where
  "TOO_CLOSE_THRESHOLD = 200"

definition TOO_FAR_THRESHOLD :: int where
  "TOO_FAR_THRESHOLD = 100"

definition FRAME_CENTER_THRESHOLD :: int where
  "FRAME_CENTER_THRESHOLD = 50"

definition TOPIC :: string where
  "TOPIC = ''VR_control''"

definition COMMAND_RATE_LIMIT :: real where
  "COMMAND_RATE_LIMIT = 1 / 2"

subsection \<open>The application object\<close>

text \<open>
  The fields of \<open>FaceGuidanceMQTTApp\<close> that the dispatch logic touches: the MQTT client and
  the two fields set under the comment ``Command rate limiting''. \<open>sent_log\<close> is a history
  variable that the source does not have: it receives the pair (clock reading, command) at
  the two places where the source prints its confirmation line, that is right after a
  \<open>publish\<close> call has returned without raising. It is written and never read by the
  functions below.
\<close>

record 'ch app =
  mqtt_client :: 'ch
  last_command_time :: real
  last_command :: "string option"
  sent_log :: "(real \<times> string) list"

text \<open>The state that \<open>__init__\<close> leaves: \<open>last_command_time = 0\<close>, \<open>last_command = None\<close>.\<close>

definition init :: "'ch \<Rightarrow> 'ch app" where
  "init ch = \<lparr>mqtt_client = ch, last_command_time = 0, last_command = None, sent_log = []\<rparr>"

subsection \<open>Automated dispatch\<close>

text \<open>
  \<open>send_mqtt_command\<close> (lines 95--115). The result is the returned boolean and the object
  after the call. \<open>command == self.last_command\<close> compares a string with \<open>None\<close> or a
  string.
\<close>

definition send_mqtt_command :: "'ch publish \<Rightarrow> real \<Rightarrow> 'ch app \<Rightarrow> string \<Rightarrow> bool \<times> 'ch app" where
  "send_mqtt_command publish current_time self command =
     (if current_time - last_command_time self < COMMAND_RATE_LIMIT then (False, self)
      else if Some command = last_command self then (False, self)
      else (case publish (mqtt_client self) TOPIC command of
              Published ch \<Rightarrow>
                (True, self\<lparr>mqtt_client := ch,
                             last_command_time := current_time,
                             last_command := Some command,
                             sent_log := sent_log self @ [(current_time, command)]\<rparr>)
            | Raised ch \<Rightarrow> (False, self\<lparr>mqtt_client := ch\<rparr>)))"

subsection \<open>Classification\<close>

text \<open>
  \<open>analyze_face_distance\<close> (lines 129--138) and \<open>analyze_face_position\<close> (lines 140--151).
  Both return a status string; the branches that find a deviation first call
  \<open>send_mqtt_command\<close> and drop its result. \<open>now\<close> is the clock reading that this nested
  call takes. Pixel quantities are integers; \<open>//\<close> is floor division, as \<open>div\<close> on \<open>int\<close>.
\<close>

definition analyze_face_distance :: "'ch publish \<Rightarrow> real \<Rightarrow> 'ch app \<Rightarrow> int \<Rightarrow> string \<times> 'ch app" where
  "analyze_face_distance publish now self face_width =
     (if face_width > TOO_CLOSE_THRESHOLD then
        (''TOO_CLOSE'', snd (send_mqtt_command publish now self ''Backward''))
      else if face_width < TOO_FAR_THRESHOLD then
        (''TOO_FAR'', snd (send_mqtt_command publish now self ''Forward''))
      else (''OPTIMAL'', self))"

definition analyze_face_position :: "'ch publish \<Rightarrow> real \<Rightarrow> 'ch app \<Rightarrow> int \<Rightarrow> int \<Rightarrow> string \<times> 'ch app" where
  "analyze_face_position publish now self face_center_x frame_width =
     (let frame_center_x = frame_width div 2 in
      if face_center_x < frame_center_x - FRAME_CENTER_THRESHOLD then
        (''TOO_LEFT'', snd (send_mqtt_command publish now self ''Right''))
      else if face_center_x > frame_center_x + FRAME_CENTER_THRESHOLD then
        (''TOO_RIGHT'', snd (send_mqtt_command publish now self ''Left''))
      else (''CENTERED'', self))"

text \<open>
  The loop over the detected faces in \<open>draw_guidance\<close> (lines 166--186). A face is its box
  \<open>(x, y, w, h)\<close> together with the two clock readings of the two dispatch attempts made
  for it. The result lists the two status strings shown for each face.
\<close>

type_synonym box = "int \<times> int \<times> int \<times> int"

fun draw_guidance ::
  "'ch publish \<Rightarrow> int \<Rightarrow> 'ch app \<Rightarrow> (box \<times> real \<times> real) list \<Rightarrow> (string \<times> string) list \<times> 'ch app" where
  "draw_guidance publish width self [] = ([], self)"
| "draw_guidance publish width self (((x, y, w, h), t_distance, t_position) # faces) =
     (let face_center_x = x + w div 2;
          (distance_status, self1) = analyze_face_distance publish t_distance self w;
          (position_status, self2) = analyze_face_position publish t_position self1 face_center_x width;
          (shown, self3) = draw_guidance publish width self2 faces
      in ((distance_status, position_status) # shown, self3))"

subsection \<open>Manual control\<close>

definition ord :: "char \<Rightarrow> int" where
  "ord c = of_char c"

text \<open>The value of \<open>cmd\<close> after the \<open>if\<close>/\<open>elif\<close> chain of \<open>handle_manual_control\<close> (lines 209--224).\<close>

definition manual_cmd :: "int \<Rightarrow> string option" where
  "manual_cmd key =
     (if key = ord CHR ''w'' then Some ''Forward''
      else if key = ord CHR ''s'' then Some ''Backward''
      else if key = ord CHR ''a'' then Some ''Left''
      else if key = ord CHR ''d'' then Some ''Right''
      else if key = ord CHR ''q'' then Some ''RotateLeft''
      else if key = ord CHR ''e'' then Some ''RotateRight''
      else if key = ord CHR '' '' then Some ''Stop''
      else None)"

text \<open>\<open>handle_manual_control\<close> (lines 207--236); it returns nothing.\<close>

definition handle_manual_control :: "'ch publish \<Rightarrow> real \<Rightarrow> 'ch app \<Rightarrow> int \<Rightarrow> 'ch app" where
  "handle_manual_control publish current_time self key =
     (case manual_cmd key of
        None \<Rightarrow> self
      | Some cmd \<Rightarrow>
          if current_time - last_command_time self \<ge> COMMAND_RATE_LIMIT then
            (case publish (mqtt_client self) TOPIC cmd of
               Published ch \<Rightarrow>
                 self\<lparr>mqtt_client := ch,
                      last_command_time := current_time,
                      last_command := Some cmd,
                      sent_log := sent_log self @ [(current_time, cmd)]\<rparr>
             | Raised ch \<Rightarrow> self\<lparr>mqtt_client := ch\<rparr>)
          else self)"

subsection \<open>The control loop\<close>

text \<open>
  The detector (OpenCV) is external: on a frame it returns boxes or raises.
  \<open>detect_faces\<close> (lines 117--127) has no handler, so an exception leaves it.
\<close>

datatype 'f detection = Detected "'f list" | Detector_raised

datatype exn = Detector_error | Publish_error

definition detect_faces :: "'f detection \<Rightarrow> exn + 'f list" where
  "detect_faces outcome = (case outcome of Detected faces \<Rightarrow> Inr faces | Detector_raised \<Rightarrow> Inl Detector_error)"

text \<open>
  What the environment supplies to one iteration of the loop in \<open>run\<close> (lines 241--282):
  the result of \<open>cap.read()\<close>, the width in \<open>frame.shape\<close>, the detector's outcome on the frame,
  the value of \<open>cv2.waitKey(1)\<close> and the clock reading of the manual dispatch.
\<close>

record tick_input =
  ret :: bool
  shape_width :: int
  detector :: "(box \<times> real \<times> real) detection"
  waitKey :: int
  key_time :: real

datatype loop_exit = Frame_grab_failed | Quit_key | Uncaught exn

text \<open>
  \<open>run\<close> over the iterations the environment supplies. \<open>None\<close>: the loop has not left and
  waits for the next frame. An exception of the detector is not a \<open>KeyboardInterrupt\<close>: it
  leaves \<open>run\<close> through \<open>finally\<close> and is reported by \<open>main\<close>.
\<close>

fun run :: "'ch publish \<Rightarrow> 'ch app \<Rightarrow> tick_input list \<Rightarrow> loop_exit option \<times> 'ch app" where
  "run publish self [] = (None, self)"
| "run publish self (i # rest) =
     (if \<not> ret i then (Some Frame_grab_failed, self)
      else (case detect_faces (detector i) of
              Inl e \<Rightarrow> (Some (Uncaught e), self)
            | Inr faces \<Rightarrow>
                (let self1 = (if length faces > 0
                              then snd (draw_guidance publish (shape_width i) self faces)
                              else self);
                     key = waitKey i AND 255;
                     self2 = handle_manual_control publish (key_time i) self1 key
                 in if key = ord CHR ''q'' \<or> key = 27 then (Some Quit_key, self2)
                    else run publish self2 rest)))"

section \<open>face-detect-streaming.py\<close>

text \<open>
  \<open>FaceGuidanceApp.detect_faces\<close> (lines 36--53): the same detector call inside
  \<open>try\<close>/\<open>except Exception\<close>, which returns the empty list.
\<close>

definition streaming_detect_faces :: "'f detection \<Rightarrow> 'f list" where
  "streaming_detect_faces outcome = (case outcome of Detected faces \<Rightarrow> faces | Detector_raised \<Rightarrow> [])"

section \<open>MQTT.py\<close>

text \<open>
  \<open>str.lower()\<close> on the one-character string that \<open>get_key\<close> returns; only ASCII letters
  are mapped, which is all that the comparisons below can tell apart.
\<close>

definition lower_char :: "char \<Rightarrow> char" where
  "lower_char c =
     (case map_of (zip ''ABCDEFGHIJKLMNOPQRSTUVWXYZ'' ''abcdefghijklmnopqrstuvwxyz'') c of
        Some l \<Rightarrow> l
      | None \<Rightarrow> c)"

definition lower :: "string \<Rightarrow> string" where
  "lower s = map lower_char s"

text \<open>
  The value of \<open>cmd\<close> after the \<open>if\<close>/\<open>elif\<close> chain of \<open>main\<close> (lines 69--80); the
  empty string when no command key matched.
\<close>

definition MQTT_cmd :: "string \<Rightarrow> string" where
  "MQTT_cmd key =
     (if key = ''w'' then ''Forward''
      else if key = ''s'' then ''Backward''
      else if key = ''a'' then ''Left''
      else if key = ''d'' then ''Right''
      else if key = '' '' then ''Stop''
      else [])"

text \<open>
  The loop of \<open>main\<close> (lines 67--87) over the keys pressed. The module-level \<open>client\<close> is
  threaded through; \<open>sent\<close> is a history variable listing the commands whose \<open>publish\<close>
  call returned. The last \<open>elif\<close> of the chain, \<open>key == "q"\<close>, leaves the loop; it excludes
  the five command keys. The script has no handler around \<open>publish\<close>: an exception ends it.
  \<open>None\<close>: the loop waits for the next key.
\<close>

fun MQTT_main :: "'ch publish \<Rightarrow> 'ch \<Rightarrow> string list \<Rightarrow> string list \<Rightarrow> loop_exit option \<times> 'ch \<times> string list" where
  "MQTT_main publish client sent [] = (None, client, sent)"
| "MQTT_main publish client sent (pressed # rest) =
     (let key = lower pressed;
          cmd = MQTT_cmd key
      in if key = ''q'' then (Some Quit_key, client, sent)
         else if cmd \<noteq> [] then
           (case publish client TOPIC cmd of
              Published ch \<Rightarrow> MQTT_main publish ch (sent @ [cmd]) rest
            | Raised ch \<Rightarrow> (Some (Uncaught Publish_error), ch, sent))
         else MQTT_main publish client sent rest)"

section \<open>Sequences of dispatch attempts\<close>

text \<open>
  A dispatch attempt is a call of \<open>send_mqtt_command\<close> with a candidate command (the
  automated path) or a call of \<open>handle_manual_control\<close> with a key code (the manual path),
  at a clock reading. \<open>attempts\<close> lists the object before the first attempt and after each
  one.
\<close>

datatype attempt = Automated string | Manual int

definition attempt_step :: "'ch publish \<Rightarrow> 'ch app \<Rightarrow> real \<times> attempt \<Rightarrow> 'ch app" where
  "attempt_step publish self a =
     (case a of
        (now, Automated command) \<Rightarrow> snd (send_mqtt_command publish now self command)
      | (now, Manual key) \<Rightarrow> handle_manual_control publish now self key)"

fun attempts :: "'ch publish \<Rightarrow> 'ch app \<Rightarrow> (real \<times> attempt) list \<Rightarrow> 'ch app list" where
  "attempts publish self [] = [self]"
| "attempts publish self (a # rest) = self # attempts publish (attempt_step publish self a) rest"

text \<open>
  A log of dispatches is \<open>spaced\<close> when any two of its entries, in order, lie at least
  \<open>COMMAND_RATE_LIMIT\<close> apart in time.
\<close>

definition spaced :: "(real \<times> string) list \<Rightarrow> bool" where
  "spaced entries = sorted_wrt (\<lambda>a b. COMMAND_RATE_LIMIT \<le> fst b - fst a) entries"

text \<open>The invariant of the object: its log is spaced and nothing in it is later than \<open>last_command_time\<close>.\<close>

definition log_inv :: "'ch app \<Rightarrow> bool" where
  "log_inv self = (spaced (sent_log self) \<and> list_all (\<lambda>e. fst e \<le> last_command_time self) (sent_log self))"

section \<open>Test doubles for the channel\<close>

text \<open>
  Two channels for concrete runs: one that records every message and never raises, and one
  whose \<open>publish\<close> raises while a countdown is positive and records afterwards.
\<close>

definition recording_publish :: "(string \<times> string) list publish" where
  "recording_publish ch topic payload = Published (ch @ [(topic, payload)])"

definition flaky_publish :: "(nat \<times> (string \<times> string) list) publish" where
  "flaky_publish ch topic payload =
     (case ch of (n, msgs) \<Rightarrow>
        if n > 0 then Raised (n - 1, msgs) else Published (0, msgs @ [(topic, payload)]))"

section \<open>Properties of the automated dispatch\<close>

text \<open>
  C1. For every candidate command and clock reading \<open>now\<close>, \<open>send_mqtt_command\<close> returns
  \<open>False\<close> and leaves the whole object unchanged (\<open>last_command\<close>, \<open>last_command_time\<close>,
  and the channel, which is not called) whenever \<open>now - last_command_time < COMMAND_RATE_LIMIT\<close>,
  and also whenever the candidate equals \<open>last_command\<close>, whatever the time elapsed.
\<close>

theorem send_mqtt_command_rejects:
  assumes "now - last_command_time self < COMMAND_RATE_LIMIT \<or> last_command self = Some candidate"
  shows "send_mqtt_command publish now self candidate = (False, self)"
  using assms by (auto simp: send_mqtt_command_def)

text \<open>
  After \<open>Forward\<close> was sent at time 10: \<open>Backward\<close> at 10.3 comes too early, and
  \<open>Forward\<close> at 60, long after the interval has elapsed, repeats \<open>last_command\<close>.
\<close>

theorem send_mqtt_command_rejects_witness:
  "103 / 10 - 10 < COMMAND_RATE_LIMIT
   \<and> send_mqtt_command recording_publish (103 / 10)
        \<lparr>mqtt_client = [], last_command_time = 10, last_command = Some ''Forward'',
         sent_log = [(10, ''Forward'')]\<rparr> ''Backward''
       = (False, \<lparr>mqtt_client = [], last_command_time = 10, last_command = Some ''Forward'',
                  sent_log = [(10, ''Forward'')]\<rparr>)
   \<and> \<not> 60 - 10 < COMMAND_RATE_LIMIT
   \<and> send_mqtt_command recording_publish 60
        \<lparr>mqtt_client = [], last_command_time = 10, last_command = Some ''Forward'',
         sent_log = [(10, ''Forward'')]\<rparr> ''Forward''
       = (False, \<lparr>mqtt_client = [], last_command_time = 10, last_command = Some ''Forward'',
                  sent_log = [(10, ''Forward'')]\<rparr>)"
proof -
  let ?s = "\<lparr>mqtt_client = [] :: (string \<times> string) list, last_command_time = 10,
             last_command = Some ''Forward'', sent_log = [(10, ''Forward'')]\<rparr>"
  have early: "103 / 10 - last_command_time ?s < COMMAND_RATE_LIMIT \<or> last_command ?s = Some ''Backward''"
    by (simp add: COMMAND_RATE_LIMIT_def)
  have same: "60 - last_command_time ?s < COMMAND_RATE_LIMIT \<or> last_command ?s = Some ''Forward''"
    by simp
  have times: "(103 / 10 - 10 :: real) < COMMAND_RATE_LIMIT \<and> \<not> (60 - 10 :: real) < COMMAND_RATE_LIMIT"
    by (simp add: COMMAND_RATE_LIMIT_def)
  show ?thesis
    using times
          send_mqtt_command_rejects [OF early, of recording_publish]
          send_mqtt_command_rejects [OF same, of recording_publish]
    by blast
qed

text \<open>
  C6. When an automated attempt passes both checks (the minimum interval has elapsed and the
  candidate differs from \<open>last_command\<close>), \<open>send_mqtt_command\<close> calls \<open>publish\<close> on the
  channel with the topic and the candidate. If the call returns, the function returns \<open>True\<close>
  and the object holds the candidate as \<open>last_command\<close> and \<open>now\<close> as \<open>last_command_time\<close>.
  If the call raises, the function returns \<open>False\<close> and only the channel may differ:
  \<open>last_command\<close> and \<open>last_command_time\<close> are as before, so the same candidate passes the
  same checks again later.
\<close>

theorem send_mqtt_command_passes:
  assumes "\<not> now - last_command_time self < COMMAND_RATE_LIMIT"
      and "last_command self \<noteq> Some candidate"
  shows "case publish (mqtt_client self) TOPIC candidate of
           Published ch \<Rightarrow>
             send_mqtt_command publish now self candidate
               = (True, self\<lparr>mqtt_client := ch, last_command_time := now,
                              last_command := Some candidate,
                              sent_log := sent_log self @ [(now, candidate)]\<rparr>)
         | Raised ch \<Rightarrow>
             send_mqtt_command publish now self candidate = (False, self\<lparr>mqtt_client := ch\<rparr>)
             \<and> last_command (snd (send_mqtt_command publish now self candidate)) = last_command self
             \<and> last_command_time (snd (send_mqtt_command publish now self candidate))
                 = last_command_time self"
  using assms by (auto simp: send_mqtt_command_def split: publish_result.splits)

text \<open>
  Scenario 5 of the specification on a channel whose first \<open>publish\<close> raises: the attempt at
  time 100 fails and changes only the channel; the retry 0.6 s later is published.
\<close>

theorem send_mqtt_command_passes_witness:
  "\<not> 100 - 99 < COMMAND_RATE_LIMIT
   \<and> send_mqtt_command flaky_publish 100
        \<lparr>mqtt_client = (1, []), last_command_time = 99, last_command = Some ''Backward'',
         sent_log = [(99, ''Backward'')]\<rparr> ''Forward''
       = (False, \<lparr>mqtt_client = (0, []), last_command_time = 99, last_command = Some ''Backward'',
                  sent_log = [(99, ''Backward'')]\<rparr>)
   \<and> send_mqtt_command flaky_publish (1006 / 10)
        \<lparr>mqtt_client = (0, []), last_command_time = 99, last_command = Some ''Backward'',
         sent_log = [(99, ''Backward'')]\<rparr> ''Forward''
       = (True, \<lparr>mqtt_client = (0, [(''VR_control'', ''Forward'')]), last_command_time = 1006 / 10,
                 last_command = Some ''Forward'',
                 sent_log = [(99, ''Backward''), (1006 / 10, ''Forward'')]\<rparr>)"
proof -
  let ?s1 = "\<lparr>mqtt_client = (1::nat, [] :: (string \<times> string) list), last_command_time = 99,
              last_command = Some ''Backward'', sent_log = [(99, ''Backward'')]\<rparr>"
  let ?s2 = "\<lparr>mqtt_client = (0::nat, [] :: (string \<times> string) list), last_command_time = 99,
              last_command = Some ''Backward'', sent_log = [(99, ''Backward'')]\<rparr>"
  have t0: "\<not> (100::real) - 99 < COMMAND_RATE_LIMIT"
    by (simp add: COMMAND_RATE_LIMIT_def)
  have t1: "\<not> 100 - last_command_time ?s1 < COMMAND_RATE_LIMIT"
    by (simp add: COMMAND_RATE_LIMIT_def)
  have c1: "last_command ?s1 \<noteq> Some ''Forward''"
    by simp
  have t2: "\<not> 1006 / 10 - last_command_time ?s2 < COMMAND_RATE_LIMIT"
    by (simp add: COMMAND_RATE_LIMIT_def)
  have c2: "last_command ?s2 \<noteq> Some ''Forward''"
    by simp
  have first: "send_mqtt_command flaky_publish 100 ?s1 ''Forward'' = (False, ?s2)"
    using send_mqtt_command_passes [OF t1 c1, of flaky_publish]
    by (simp add: flaky_publish_def)
  have second: "send_mqtt_command flaky_publish (1006 / 10) ?s2 ''Forward''
       = (True, \<lparr>mqtt_client = (0, [(''VR_control'', ''Forward'')]), last_command_time = 1006 / 10,
                 last_command = Some ''Forward'',
                 sent_log = [(99, ''Backward''), (1006 / 10, ''Forward'')]\<rparr>)"
    using send_mqtt_command_passes [OF t2 c2, of flaky_publish]
    by (simp add: flaky_publish_def TOPIC_def)
  show ?thesis
    using t0 first second by blast
qed

section \<open>Properties of the classification\<close>

text \<open>
  C4. For every integer face width \<open>w\<close>, the status returned by \<open>analyze_face_distance\<close> is
  \<open>TOO_CLOSE\<close> if and only if \<open>w > 200\<close>, \<open>TOO_FAR\<close> if and only if \<open>w < 100\<close>, and
  \<open>OPTIMAL\<close> if and only if \<open>100 \<le> w \<le> 200\<close>, whatever the object, the channel and the
  clock are.
\<close>

theorem analyze_face_distance_status:
  "(fst (analyze_face_distance publish now self w) = ''TOO_CLOSE'') = (w > 200)
   \<and> (fst (analyze_face_distance publish now self w) = ''TOO_FAR'') = (w < 100)
   \<and> (fst (analyze_face_distance publish now self w) = ''OPTIMAL'') = (100 \<le> w \<and> w \<le> 200)"
  by (simp add: analyze_face_distance_def TOO_CLOSE_THRESHOLD_def TOO_FAR_THRESHOLD_def)

text \<open>
  C5. For every \<open>face_center_x\<close> and every positive \<open>frame_width\<close>, the status returned by
  \<open>analyze_face_position\<close> is \<open>TOO_LEFT\<close> if and only if
  \<open>face_center_x < frame_width div 2 - 50\<close>, \<open>TOO_RIGHT\<close> if and only if
  \<open>face_center_x > frame_width div 2 + 50\<close>, and \<open>CENTERED\<close> in every other case;
  \<open>div\<close> is integer (floor) division.
\<close>

theorem analyze_face_position_status:
  assumes "0 < frame_width"
  shows "(fst (analyze_face_position publish now self face_center_x frame_width) = ''TOO_LEFT'')
           = (face_center_x < frame_width div 2 - 50)
   \<and> (fst (analyze_face_position publish now self face_center_x frame_width) = ''TOO_RIGHT'')
           = (face_center_x > frame_width div 2 + 50)
   \<and> (fst (analyze_face_position publish now self face_center_x frame_width) = ''CENTERED'')
           = (\<not> face_center_x < frame_width div 2 - 50 \<and> \<not> face_center_x > frame_width div 2 + 50)"
  by (simp add: analyze_face_position_def FRAME_CENTER_THRESHOLD_def Let_def)

text \<open>An odd frame width, 641: the centre is 320, so the band of \<open>CENTERED\<close> is 270 to 370.\<close>

theorem analyze_face_position_status_witness:
  "(0::int) < 641
   \<and> fst (analyze_face_position recording_publish 10 (init []) 269 641) = ''TOO_LEFT''
   \<and> fst (analyze_face_position recording_publish 10 (init []) 270 641) = ''CENTERED''
   \<and> fst (analyze_face_position recording_publish 10 (init []) 370 641) = ''CENTERED''
   \<and> fst (analyze_face_position recording_publish 10 (init []) 371 641) = ''TOO_RIGHT''"
proof -
  have pos: "(0::int) < 641" by simp
  show ?thesis
    using analyze_face_position_status [OF pos, of recording_publish 10 "init []" 269]
          analyze_face_position_status [OF pos, of recording_publish 10 "init []" 270]
          analyze_face_position_status [OF pos, of recording_publish 10 "init []" 370]
          analyze_face_position_status [OF pos, of recording_publish 10 "init []" 371]
    by simp
qed

text \<open>
  C2 (as stated). The specification says that the two classifications have no side effect: they never
  publish and never read or change \<open>last_command\<close> and \<open>last_command_time\<close>. On a fresh
  object and a recording channel, a face 250 pixels wide makes \<open>analyze_face_distance\<close>
  publish \<open>Backward\<close>, and a face centred at 100 in a frame 640 wide makes
  \<open>analyze_face_position\<close> publish \<open>Right\<close>; both set \<open>last_command\<close> and
  \<open>last_command_time\<close>.
\<close>

theorem classification_publishes:
  "analyze_face_distance recording_publish 10 (init []) 250
     = (''TOO_CLOSE'',
        \<lparr>mqtt_client = [(''VR_control'', ''Backward'')], last_command_time = 10,
         last_command = Some ''Backward'', sent_log = [(10, ''Backward'')]\<rparr>)
   \<and> analyze_face_position recording_publish 10 (init []) 100 640
     = (''TOO_LEFT'',
        \<lparr>mqtt_client = [(''VR_control'', ''Right'')], last_command_time = 10,
         last_command = Some ''Right'', sent_log = [(10, ''Right'')]\<rparr>)
   \<and> snd (analyze_face_distance recording_publish 10 (init []) 250) \<noteq> init []
   \<and> snd (analyze_face_position recording_publish 10 (init []) 100 640) \<noteq> init []"
  by (simp add: analyze_face_distance_def analyze_face_position_def send_mqtt_command_def
      recording_publish_def init_def Let_def TOO_CLOSE_THRESHOLD_def FRAME_CENTER_THRESHOLD_def
      COMMAND_RATE_LIMIT_def TOPIC_def)

text \<open>
  C2 (amended). The status that each classification returns is a function of its pixel
  arguments alone: it is the same for every object, channel and clock reading. The
  classifications are not free of effects: when the status is \<open>TOO_CLOSE\<close>, \<open>TOO_FAR\<close>,
  \<open>TOO_LEFT\<close> or \<open>TOO_RIGHT\<close> the function itself makes one automated dispatch attempt
  (\<open>send_mqtt_command\<close> with \<open>Backward\<close>, \<open>Forward\<close>, \<open>Right\<close>, \<open>Left\<close> respectively),
  and the object afterwards is the one that attempt leaves; when the status is \<open>OPTIMAL\<close>
  or \<open>CENTERED\<close> the object, channel included, is unchanged.
\<close>

theorem classification_effects:
  "fst (analyze_face_distance publish now self w) = fst (analyze_face_distance publish' now' self' w)
   \<and> fst (analyze_face_position publish now self cx fw)
       = fst (analyze_face_position publish' now' self' cx fw)
   \<and> snd (analyze_face_distance publish now self w)
       = (if w > 200 then snd (send_mqtt_command publish now self ''Backward'')
          else if w < 100 then snd (send_mqtt_command publish now self ''Forward'')
          else self)
   \<and> snd (analyze_face_position publish now self cx fw)
       = (if cx < fw div 2 - 50 then snd (send_mqtt_command publish now self ''Right'')
          else if cx > fw div 2 + 50 then snd (send_mqtt_command publish now self ''Left'')
          else self)"
  by (simp add: analyze_face_distance_def analyze_face_position_def Let_def
      TOO_CLOSE_THRESHOLD_def TOO_FAR_THRESHOLD_def FRAME_CENTER_THRESHOLD_def)

section \<open>Properties of the manual control\<close>

text \<open>
  C7. For a key of the table, with command \<open>cmd\<close>: \<open>handle_manual_control\<close> leaves the
  object unchanged, without calling \<open>publish\<close>, when \<open>now - last_command_time\<close> is below
  \<open>COMMAND_RATE_LIMIT\<close>; otherwise it calls \<open>publish\<close> with \<open>cmd\<close>, whether or not
  \<open>cmd\<close> equals \<open>last_command\<close>, and when the call returns it sets \<open>last_command\<close> to
  \<open>cmd\<close> and \<open>last_command_time\<close> to \<open>now\<close>. Whenever the automated path would not
  suppress \<open>cmd\<close> as a repeat, the object after the manual dispatch is the object that
  \<open>send_mqtt_command\<close> leaves.
\<close>

theorem handle_manual_control_dispatch:
  assumes "manual_cmd key = Some cmd"
  shows "(now - last_command_time self < COMMAND_RATE_LIMIT \<longrightarrow>
            handle_manual_control publish now self key = self)
       \<and> (now - last_command_time self \<ge> COMMAND_RATE_LIMIT \<longrightarrow>
            (case publish (mqtt_client self) TOPIC cmd of
               Published ch \<Rightarrow>
                 handle_manual_control publish now self key
                   = self\<lparr>mqtt_client := ch, last_command_time := now, last_command := Some cmd,
                          sent_log := sent_log self @ [(now, cmd)]\<rparr>
             | Raised ch \<Rightarrow> handle_manual_control publish now self key = self\<lparr>mqtt_client := ch\<rparr>))
       \<and> (now - last_command_time self \<ge> COMMAND_RATE_LIMIT \<and> last_command self \<noteq> Some cmd \<longrightarrow>
            handle_manual_control publish now self key = snd (send_mqtt_command publish now self cmd))"
  using assms
  by (auto simp: handle_manual_control_def send_mqtt_command_def split: publish_result.splits)

text \<open>
  The key \<open>w\<close> (code 119) after \<open>Forward\<close> was sent at time 10: rejected at 10.3, sent
  again at 10.5 although it repeats \<open>last_command\<close>. The key \<open>s\<close> (code 115) at 10.5 acts as
  the automated path does.
\<close>

theorem handle_manual_control_dispatch_witness:
  "manual_cmd 119 = Some ''Forward''
   \<and> handle_manual_control recording_publish (103 / 10)
        \<lparr>mqtt_client = [], last_command_time = 10, last_command = Some ''Forward'',
         sent_log = [(10, ''Forward'')]\<rparr> 119
       = \<lparr>mqtt_client = [], last_command_time = 10, last_command = Some ''Forward'',
          sent_log = [(10, ''Forward'')]\<rparr>
   \<and> handle_manual_control recording_publish (105 / 10)
        \<lparr>mqtt_client = [], last_command_time = 10, last_command = Some ''Forward'',
         sent_log = [(10, ''Forward'')]\<rparr> 119
       = \<lparr>mqtt_client = [(''VR_control'', ''Forward'')], last_command_time = 105 / 10,
          last_command = Some ''Forward'', sent_log = [(10, ''Forward''), (105 / 10, ''Forward'')]\<rparr>
   \<and> manual_cmd 115 = Some ''Backward''
   \<and> handle_manual_control recording_publish (105 / 10)
        \<lparr>mqtt_client = [], last_command_time = 10, last_command = Some ''Forward'',
         sent_log = [(10, ''Forward'')]\<rparr> 115
       = snd (send_mqtt_command recording_publish (105 / 10)
               \<lparr>mqtt_client = [], last_command_time = 10, last_command = Some ''Forward'',
                sent_log = [(10, ''Forward'')]\<rparr> ''Backward'')"
proof -
  let ?s = "\<lparr>mqtt_client = [] :: (string \<times> string) list, last_command_time = 10,
             last_command = Some ''Forward'', sent_log = [(10, ''Forward'')]\<rparr>"
  have w: "manual_cmd 119 = Some ''Forward''"
    by (simp add: manual_cmd_def ord_def)
  have s: "manual_cmd 115 = Some ''Backward''"
    by (simp add: manual_cmd_def ord_def)
  have early: "handle_manual_control recording_publish (103 / 10) ?s 119 = ?s"
    using handle_manual_control_dispatch [OF w, of "103 / 10" ?s recording_publish]
    by (simp add: COMMAND_RATE_LIMIT_def)
  have again: "handle_manual_control recording_publish (105 / 10) ?s 119
       = \<lparr>mqtt_client = [(''VR_control'', ''Forward'')], last_command_time = 105 / 10,
          last_command = Some ''Forward'', sent_log = [(10, ''Forward''), (105 / 10, ''Forward'')]\<rparr>"
    using handle_manual_control_dispatch [OF w, of "105 / 10" ?s recording_publish]
    by (simp add: COMMAND_RATE_LIMIT_def recording_publish_def TOPIC_def)
  have alike: "handle_manual_control recording_publish (105 / 10) ?s 115
       = snd (send_mqtt_command recording_publish (105 / 10) ?s ''Backward'')"
    using handle_manual_control_dispatch [OF s, of "105 / 10" ?s recording_publish]
    by (simp add: COMMAND_RATE_LIMIT_def)
  show ?thesis
    using w s early again alike by blast
qed

text \<open>
  The key table of \<open>handle_manual_control\<close>, and the key codes outside it: they change
  nothing.
\<close>

lemma manual_cmd_table:
  "manual_cmd (ord CHR ''w'') = Some ''Forward''
   \<and> manual_cmd (ord CHR ''s'') = Some ''Backward''
   \<and> manual_cmd (ord CHR ''a'') = Some ''Left''
   \<and> manual_cmd (ord CHR ''d'') = Some ''Right''
   \<and> manual_cmd (ord CHR ''q'') = Some ''RotateLeft''
   \<and> manual_cmd (ord CHR ''e'') = Some ''RotateRight''
   \<and> manual_cmd (ord CHR '' '') = Some ''Stop''"
  by (simp add: manual_cmd_def ord_def)

lemma handle_manual_control_other_key:
  assumes "key \<notin> ord ` {CHR ''w'', CHR ''s'', CHR ''a'', CHR ''d'', CHR ''q'', CHR ''e'', CHR '' ''}"
  shows "handle_manual_control publish now self key = self"
  using assms by (simp add: handle_manual_control_def manual_cmd_def)

text \<open>
  C8. The specification says that the quit trigger is a key code distinct from all seven command
  keys. The loop in \<open>run\<close> leaves on \<open>ord('q')\<close> or 27, and \<open>ord('q')\<close>, 113, is the table's
  key for \<open>RotateLeft\<close>: on that key one iteration publishes \<open>RotateLeft\<close> and then leaves
  the loop, so the next key (here the space bar, \<open>Stop\<close>) is never read.
\<close>

theorem quit_key_sends_RotateLeft:
  "(113 :: int) = ord CHR ''q''
   \<and> manual_cmd 113 = Some ''RotateLeft''
   \<and> run recording_publish (init [])
        [\<lparr>ret = True, shape_width = 640, detector = Detected [], waitKey = 113, key_time = 100\<rparr>,
         \<lparr>ret = True, shape_width = 640, detector = Detected [], waitKey = 32, key_time = 101\<rparr>]
       = (Some Quit_key,
          \<lparr>mqtt_client = [(''VR_control'', ''RotateLeft'')], last_command_time = 100,
           last_command = Some ''RotateLeft'', sent_log = [(100, ''RotateLeft'')]\<rparr>)"
  by (simp add: manual_cmd_def ord_def detect_faces_def handle_manual_control_def
      recording_publish_def init_def COMMAND_RATE_LIMIT_def TOPIC_def)

section \<open>The invariant of the dispatch state\<close>

text \<open>Each dispatch function keeps \<open>log_inv\<close> and never lowers \<open>last_command_time\<close>.\<close>

lemma log_inv_init: "log_inv (init ch)"
  by (simp add: log_inv_def init_def spaced_def)

lemma send_mqtt_command_log_inv:
  assumes "log_inv self"
  shows "log_inv (snd (send_mqtt_command publish now self command))"
  using assms
  by (auto simp: send_mqtt_command_def log_inv_def spaced_def sorted_wrt_append list_all_iff
      COMMAND_RATE_LIMIT_def split: publish_result.splits)

lemma handle_manual_control_log_inv:
  assumes "log_inv self"
  shows "log_inv (handle_manual_control publish now self key)"
  using assms
  by (auto simp: handle_manual_control_def log_inv_def spaced_def sorted_wrt_append list_all_iff
      COMMAND_RATE_LIMIT_def split: publish_result.splits option.splits)

lemma send_mqtt_command_time_mono:
  "last_command_time self \<le> last_command_time (snd (send_mqtt_command publish now self command))"
  by (auto simp: send_mqtt_command_def COMMAND_RATE_LIMIT_def split: publish_result.splits)

lemma handle_manual_control_time_mono:
  "last_command_time self \<le> last_command_time (handle_manual_control publish now self key)"
  by (auto simp: handle_manual_control_def COMMAND_RATE_LIMIT_def
      split: publish_result.splits option.splits)

lemma attempt_step_log_inv: "log_inv self \<Longrightarrow> log_inv (attempt_step publish self a)"
  by (cases a; cases "snd a")
     (simp_all add: attempt_step_def send_mqtt_command_log_inv handle_manual_control_log_inv)

lemma attempt_step_time_mono:
  "last_command_time self \<le> last_command_time (attempt_step publish self a)"
  by (cases a; cases "snd a")
     (simp_all add: attempt_step_def send_mqtt_command_time_mono handle_manual_control_time_mono)

lemma attempts_log_inv:
  "log_inv self \<Longrightarrow> list_all log_inv (attempts publish self as)"
  by (induction as arbitrary: self) (simp_all add: attempt_step_log_inv)

lemma attempts_time_lower:
  "list_all (\<lambda>s. last_command_time self \<le> last_command_time s) (attempts publish self as)"
proof (induction as arbitrary: self)
  case Nil
  show ?case by simp
next
  case (Cons a as)
  have "list_all (\<lambda>s. last_command_time (attempt_step publish self a) \<le> last_command_time s)
          (attempts publish (attempt_step publish self a) as)"
    by (rule Cons.IH)
  then have "list_all (\<lambda>s. last_command_time self \<le> last_command_time s)
          (attempts publish (attempt_step publish self a) as)"
    using attempt_step_time_mono [of self publish a]
    by (auto simp: list_all_iff intro: order_trans)
  then show ?case by simp
qed

lemma attempts_time_sorted:
  "sorted (map last_command_time (attempts publish self as))"
proof (induction as arbitrary: self)
  case Nil
  show ?case by simp
next
  case (Cons a as)
  have "list_all (\<lambda>s. last_command_time self \<le> last_command_time s)
          (attempts publish (attempt_step publish self a) as)"
    using attempts_time_lower [of "attempt_step publish self a" publish as]
          attempt_step_time_mono [of self publish a]
    by (auto simp: list_all_iff intro: order_trans)
  with Cons.IH show ?case by (simp add: list_all_iff)
qed

text \<open>
  C3. Across every sequence of automated and manual dispatch attempts, started from the
  object that \<open>__init__\<close> leaves, \<open>last_command_time\<close> never decreases from one attempt to
  the next, and in every state reached the log of successful dispatches is spaced: any two
  dispatches, of any command and on either path, lie at least \<open>COMMAND_RATE_LIMIT\<close> (0.5 s)
  apart. This holds for every sequence of clock readings, the non-decreasing ones included.
\<close>

theorem dispatch_invariant:
  "sorted (map last_command_time (attempts publish (init ch) as))
   \<and> list_all (\<lambda>s. spaced (sent_log s)) (attempts publish (init ch) as)"
proof -
  have "list_all log_inv (attempts publish (init ch) as)"
    by (rule attempts_log_inv [OF log_inv_init])
  then have "list_all (\<lambda>s. spaced (sent_log s)) (attempts publish (init ch) as)"
    by (simp add: list_all_iff log_inv_def)
  then show ?thesis
    by (simp add: attempts_time_sorted)
qed

text \<open>
  Seven attempts at non-decreasing times on a recording channel. Four are dispatched: the
  automated \<open>Forward\<close> at 10, the manual \<open>w\<close> at 10.5, the automated \<open>Backward\<close> at 11.5
  and the manual space bar at 12. The manual \<open>s\<close> at 10.2 and the automated \<open>Backward\<close> at
  10.6 come too early, and the automated \<open>Forward\<close> at 11 repeats \<open>last_command\<close>.
\<close>

theorem dispatch_invariant_witness:
  "sorted (map fst [(10, Automated ''Forward''), (102 / 10, Manual 115), (105 / 10, Manual 119),
                    (106 / 10, Automated ''Backward''), (11, Automated ''Forward''),
                    (115 / 10, Automated ''Backward''), (12 :: real, Manual 32)])
   \<and> sent_log (last (attempts recording_publish (init [])
        [(10, Automated ''Forward''), (102 / 10, Manual 115), (105 / 10, Manual 119),
         (106 / 10, Automated ''Backward''), (11, Automated ''Forward''),
         (115 / 10, Automated ''Backward''), (12, Manual 32)]))
       = [(10, ''Forward''), (105 / 10, ''Forward''), (115 / 10, ''Backward''), (12, ''Stop'')]
   \<and> sorted (map last_command_time (attempts recording_publish (init [])
        [(10, Automated ''Forward''), (102 / 10, Manual 115), (105 / 10, Manual 119),
         (106 / 10, Automated ''Backward''), (11, Automated ''Forward''),
         (115 / 10, Automated ''Backward''), (12, Manual 32)]))
   \<and> list_all (\<lambda>s. spaced (sent_log s)) (attempts recording_publish (init [])
        [(10, Automated ''Forward''), (102 / 10, Manual 115), (105 / 10, Manual 119),
         (106 / 10, Automated ''Backward''), (11, Automated ''Forward''),
         (115 / 10, Automated ''Backward''), (12, Manual 32)])"
proof -
  let ?as = "[(10, Automated ''Forward''), (102 / 10, Manual 115), (105 / 10, Manual 119),
              (106 / 10, Automated ''Backward''), (11, Automated ''Forward''),
              (115 / 10, Automated ''Backward''), (12 :: real, Manual 32)]"
  have times: "sorted (map fst ?as)"
    by simp
  have log: "sent_log (last (attempts recording_publish (init []) ?as))
       = [(10, ''Forward''), (105 / 10, ''Forward''), (115 / 10, ''Backward''), (12, ''Stop'')]"
    by (simp add: attempt_step_def send_mqtt_command_def handle_manual_control_def manual_cmd_def
        ord_def recording_publish_def init_def COMMAND_RATE_LIMIT_def TOPIC_def)
  show ?thesis
    using times log dispatch_invariant [of recording_publish "[]" ?as] by blast
qed

text \<open>The same invariant along the control loop itself, for every supply of iterations.\<close>

lemma analyze_face_distance_log_inv:
  "log_inv self \<Longrightarrow> log_inv (snd (analyze_face_distance publish now self w))"
  by (simp add: analyze_face_distance_def send_mqtt_command_log_inv)

lemma analyze_face_position_log_inv:
  "log_inv self \<Longrightarrow> log_inv (snd (analyze_face_position publish now self cx fw))"
  by (simp add: analyze_face_position_def Let_def send_mqtt_command_log_inv)

lemma draw_guidance_log_inv:
  "log_inv self \<Longrightarrow> log_inv (snd (draw_guidance publish width self faces))"
proof (induction faces arbitrary: self)
  case Nil
  then show ?case by simp
next
  case (Cons f faces)
  obtain x y w h t1 t2 where f: "f = ((x, y, w, h), t1, t2)"
    by (metis prod_cases3 surj_pair)
  let ?s1 = "snd (analyze_face_distance publish t1 self w)"
  let ?s2 = "snd (analyze_face_position publish t2 ?s1 (x + w div 2) width)"
  have "log_inv ?s2"
    using Cons.prems by (simp add: analyze_face_distance_log_inv analyze_face_position_log_inv)
  then have "log_inv (snd (draw_guidance publish width ?s2 faces))"
    by (rule Cons.IH)
  then show ?case
    by (simp add: f split_beta Let_def)
qed

lemma run_log_inv:
  "log_inv self \<Longrightarrow> log_inv (snd (run publish self ticks))"
proof (induction ticks arbitrary: self)
  case Nil
  then show ?case by simp
next
  case (Cons i ticks)
  show ?case
  proof (cases "detector i")
    case Detector_raised
    with Cons.prems show ?thesis by (simp add: detect_faces_def)
  next
    case (Detected faces)
    let ?s1 = "if length faces > 0 then snd (draw_guidance publish (shape_width i) self faces) else self"
    let ?s2 = "handle_manual_control publish (key_time i) ?s1 (waitKey i AND 255)"
    have "log_inv ?s1"
      using Cons.prems by (simp add: draw_guidance_log_inv)
    then have s2: "log_inv ?s2"
      by (rule handle_manual_control_log_inv)
    then have "log_inv (snd (run publish ?s2 ticks))"
      by (rule Cons.IH)
    with s2 Cons.prems Detected show ?thesis
      by (simp add: detect_faces_def Let_def)
  qed
qed

lemma run_sent_log_spaced: "spaced (sent_log (snd (run publish (init ch) ticks)))"
  using run_log_inv [OF log_inv_init, of publish ch ticks] by (simp add: log_inv_def)

section \<open>Detector failure\<close>

text \<open>
  C9. The specification says that an iteration in which the detector raises behaves as one with no
  face, and that the loop goes on. In \<open>face_guidance_mqtt.py\<close> the exception leaves \<open>run\<close>:
  with a raising detector on the first frame the loop ends at once, nothing is dispatched
  and the second frame is never processed; with no face on the first frame the loop goes
  on and the second frame's face, 80 pixels wide, has \<open>Forward\<close> published. The sibling
  \<open>detect_faces\<close> of \<open>face-detect-streaming.py\<close> does turn the exception into the empty
  list.
\<close>

theorem detector_exception_ends_run:
  "run recording_publish (init [])
        [\<lparr>ret = True, shape_width = 640, detector = Detector_raised, waitKey = - 1, key_time = 100\<rparr>,
         \<lparr>ret = True, shape_width = 640, detector = Detected [((280, 100, 80, 80), 101, 102)],
          waitKey = - 1, key_time = 103\<rparr>]
       = (Some (Uncaught Detector_error), init [])
   \<and> run recording_publish (init [])
        [\<lparr>ret = True, shape_width = 640, detector = Detected [], waitKey = - 1, key_time = 100\<rparr>,
         \<lparr>ret = True, shape_width = 640, detector = Detected [((280, 100, 80, 80), 101, 102)],
          waitKey = - 1, key_time = 103\<rparr>]
       = (None,
          \<lparr>mqtt_client = [(''VR_control'', ''Forward'')], last_command_time = 101,
           last_command = Some ''Forward'', sent_log = [(101, ''Forward'')]\<rparr>)
   \<and> streaming_detect_faces (Detector_raised :: (box \<times> real \<times> real) detection) = []"
  by (simp add: manual_cmd_def ord_def detect_faces_def handle_manual_control_def
      analyze_face_distance_def analyze_face_position_def send_mqtt_command_def Let_def
      TOO_CLOSE_THRESHOLD_def TOO_FAR_THRESHOLD_def FRAME_CENTER_THRESHOLD_def
      streaming_detect_faces_def
      recording_publish_def init_def COMMAND_RATE_LIMIT_def TOPIC_def)

section \<open>Properties of MQTT.py\<close>

lemma MQTT_main_replicate:
  assumes never_raises: "\<forall>ch topic payload ch'. publish ch topic payload \<noteq> Raised ch'"
      and cmd: "MQTT_cmd (lower pressed) \<noteq> []"
  shows "fst (MQTT_main publish client sent (replicate n pressed)) = None
       \<and> snd (snd (MQTT_main publish client sent (replicate n pressed)))
           = sent @ replicate n (MQTT_cmd (lower pressed))"
proof (induction n arbitrary: client sent)
  case 0
  show ?case by simp
next
  case (Suc n)
  have q: "lower pressed \<noteq> ''q''"
    using cmd by (auto simp: MQTT_cmd_def)
  obtain ch where ch: "publish client TOPIC (MQTT_cmd (lower pressed)) = Published ch"
    using never_raises by (cases "publish client TOPIC (MQTT_cmd (lower pressed))") auto
  show ?case
    using q cmd ch Suc.IH [of ch "sent @ [MQTT_cmd (lower pressed)]"]
    by (simp add: Let_def replicate_append_same)
qed

text \<open>The key table of \<open>main\<close>, on the lower-cased key.\<close>

lemma MQTT_cmd_table:
  "MQTT_cmd ''w'' = ''Forward''
   \<and> MQTT_cmd ''s'' = ''Backward''
   \<and> MQTT_cmd ''a'' = ''Left''
   \<and> MQTT_cmd ''d'' = ''Right''
   \<and> MQTT_cmd '' '' = ''Stop''"
  by (simp add: MQTT_cmd_def)

text \<open>
  C10. In \<open>MQTT.py\<close>, a pressed key whose lower case is \<open>w\<close>, \<open>s\<close>, \<open>a\<close>, \<open>d\<close> or space
  has the command \<open>Forward\<close>, \<open>Backward\<close>, \<open>Left\<close>, \<open>Right\<close> or \<open>Stop\<close> respectively,
  and the iteration that reads it calls \<open>publish\<close> with exactly that command whatever was
  sent before: the loop reads no clock and keeps no last command. So on a channel that never
  raises, pressing the key \<open>n\<close> times publishes that command \<open>n\<close> times, and the loop is
  still running.
\<close>

theorem MQTT_main_repeats:
  assumes "(lower pressed, cmd) \<in> {(''w'', ''Forward''), (''s'', ''Backward''), (''a'', ''Left''),
                                   (''d'', ''Right''), ('' '', ''Stop'')}"
  shows "MQTT_cmd (lower pressed) = cmd
       \<and> MQTT_main publish client sent (pressed # rest)
           = (case publish client TOPIC cmd of
                Published ch \<Rightarrow> MQTT_main publish ch (sent @ [cmd]) rest
              | Raised ch \<Rightarrow> (Some (Uncaught Publish_error), ch, sent))
       \<and> ((\<forall>ch topic payload ch'. publish ch topic payload \<noteq> Raised ch') \<longrightarrow>
            fst (MQTT_main publish client sent (replicate n pressed)) = None
            \<and> snd (snd (MQTT_main publish client sent (replicate n pressed)))
                = sent @ replicate n cmd)"
proof -
  have table: "MQTT_cmd (lower pressed) = cmd"
    using assms by (auto simp: MQTT_cmd_def)
  have cmd: "MQTT_cmd (lower pressed) \<noteq> []" and q: "lower pressed \<noteq> ''q''"
    using assms by (auto simp: MQTT_cmd_def)
  have "MQTT_main publish client sent (pressed # rest)
           = (case publish client TOPIC (MQTT_cmd (lower pressed)) of
                Published ch \<Rightarrow> MQTT_main publish ch (sent @ [MQTT_cmd (lower pressed)]) rest
              | Raised ch \<Rightarrow> (Some (Uncaught Publish_error), ch, sent))"
    using cmd q by (simp add: Let_def)
  then have step: "MQTT_main publish client sent (pressed # rest)
           = (case publish client TOPIC cmd of
                Published ch \<Rightarrow> MQTT_main publish ch (sent @ [cmd]) rest
              | Raised ch \<Rightarrow> (Some (Uncaught Publish_error), ch, sent))"
    by (simp only: table)
  have many: "(\<forall>ch topic payload ch'. publish ch topic payload \<noteq> Raised ch') \<longrightarrow>
            fst (MQTT_main publish client sent (replicate n pressed)) = None
            \<and> snd (snd (MQTT_main publish client sent (replicate n pressed)))
                = sent @ replicate n cmd"
    using MQTT_main_replicate [OF _ cmd, of publish client sent n] table by simp
  show ?thesis
    using table step many by blast
qed

text \<open>
  Each of the five keys on a recording channel that starts empty, with nothing sent before:
  \<open>W\<close> three times, and \<open>s\<close>, \<open>A\<close>, \<open>d\<close> and the space bar twice each. The last line shows
  the channel itself after the three presses of \<open>W\<close>.
\<close>

theorem MQTT_main_repeats_witness:
  "lower ''W'' = ''w'' \<and> lower ''A'' = ''a''
   \<and> snd (snd (MQTT_main recording_publish [] [] (replicate 3 ''W'')))
       = [''Forward'', ''Forward'', ''Forward'']
   \<and> snd (snd (MQTT_main recording_publish [] [] (replicate 2 ''s''))) = [''Backward'', ''Backward'']
   \<and> snd (snd (MQTT_main recording_publish [] [] (replicate 2 ''A''))) = [''Left'', ''Left'']
   \<and> snd (snd (MQTT_main recording_publish [] [] (replicate 2 ''d''))) = [''Right'', ''Right'']
   \<and> snd (snd (MQTT_main recording_publish [] [] (replicate 2 '' ''))) = [''Stop'', ''Stop'']
   \<and> MQTT_main recording_publish [] [] (replicate 3 ''W'')
       = (None,
          [(''VR_control'', ''Forward''), (''VR_control'', ''Forward''), (''VR_control'', ''Forward'')],
          [''Forward'', ''Forward'', ''Forward''])"
proof -
  have never: "\<forall>ch topic payload ch'. recording_publish ch topic payload \<noteq> Raised ch'"
    by (simp add: recording_publish_def)
  have lw: "lower ''W'' = ''w''" and la: "lower ''A'' = ''a''"
    by (simp_all add: lower_def lower_char_def)
  have kw: "(lower ''W'', ''Forward'') \<in> {(''w'', ''Forward''), (''s'', ''Backward''), (''a'', ''Left''),
                                   (''d'', ''Right''), ('' '', ''Stop'')}"
    by (simp add: lower_def lower_char_def)
  have ks: "(lower ''s'', ''Backward'') \<in> {(''w'', ''Forward''), (''s'', ''Backward''), (''a'', ''Left''),
                                   (''d'', ''Right''), ('' '', ''Stop'')}"
    by (simp add: lower_def lower_char_def)
  have ka: "(lower ''A'', ''Left'') \<in> {(''w'', ''Forward''), (''s'', ''Backward''), (''a'', ''Left''),
                                   (''d'', ''Right''), ('' '', ''Stop'')}"
    by (simp add: lower_def lower_char_def)
  have kd: "(lower ''d'', ''Right'') \<in> {(''w'', ''Forward''), (''s'', ''Backward''), (''a'', ''Left''),
                                   (''d'', ''Right''), ('' '', ''Stop'')}"
    by (simp add: lower_def lower_char_def)
  have ksp: "(lower '' '', ''Stop'') \<in> {(''w'', ''Forward''), (''s'', ''Backward''), (''a'', ''Left''),
                                   (''d'', ''Right''), ('' '', ''Stop'')}"
    by (simp add: lower_def lower_char_def)
  have "snd (snd (MQTT_main recording_publish [] [] (replicate 3 ''W''))) = [] @ replicate 3 ''Forward''"
    using MQTT_main_repeats [OF kw, of recording_publish "[]" "[]" "[]" 3] never by blast
  also have "\<dots> = [''Forward'', ''Forward'', ''Forward'']"
    by (simp add: numeral_3_eq_3)
  finally have w3: "snd (snd (MQTT_main recording_publish [] [] (replicate 3 ''W''))) = [''Forward'', ''Forward'', ''Forward'']" .
  have "snd (snd (MQTT_main recording_publish [] [] (replicate 2 ''s''))) = [] @ replicate 2 ''Backward''"
    using MQTT_main_repeats [OF ks, of recording_publish "[]" "[]" "[]" 2] never by blast
  also have "\<dots> = [''Backward'', ''Backward'']"
    by (simp add: numeral_2_eq_2)
  finally have s2: "snd (snd (MQTT_main recording_publish [] [] (replicate 2 ''s''))) = [''Backward'', ''Backward'']" .
  have "snd (snd (MQTT_main recording_publish [] [] (replicate 2 ''A''))) = [] @ replicate 2 ''Left''"
    using MQTT_main_repeats [OF ka, of recording_publish "[]" "[]" "[]" 2] never by blast
  also have "\<dots> = [''Left'', ''Left'']"
    by (simp add: numeral_2_eq_2)
  finally have a2: "snd (snd (MQTT_main recording_publish [] [] (replicate 2 ''A''))) = [''Left'', ''Left'']" .
  have "snd (snd (MQTT_main recording_publish [] [] (replicate 2 ''d''))) = [] @ replicate 2 ''Right''"
    using MQTT_main_repeats [OF kd, of recording_publish "[]" "[]" "[]" 2] never by blast
  also have "\<dots> = [''Right'', ''Right'']"
    by (simp add: numeral_2_eq_2)
  finally have d2: "snd (snd (MQTT_main recording_publish [] [] (replicate 2 ''d''))) = [''Right'', ''Right'']" .
  have "snd (snd (MQTT_main recording_publish [] [] (replicate 2 '' ''))) = [] @ replicate 2 ''Stop''"
    using MQTT_main_repeats [OF ksp, of recording_publish "[]" "[]" "[]" 2] never by blast
  also have "\<dots> = [''Stop'', ''Stop'']"
    by (simp add: numeral_2_eq_2)
  finally have sp2: "snd (snd (MQTT_main recording_publish [] [] (replicate 2 '' ''))) = [''Stop'', ''Stop'']" .
  have channel: "MQTT_main recording_publish [] [] (replicate 3 ''W'')
       = (None,
          [(''VR_control'', ''Forward''), (''VR_control'', ''Forward''), (''VR_control'', ''Forward'')],
          [''Forward'', ''Forward'', ''Forward''])"
    by (simp add: numeral_3_eq_3 lower_def lower_char_def MQTT_cmd_def recording_publish_def
        TOPIC_def Let_def)
  show ?thesis
    using lw la w3 s2 a2 d2 sp2 channel by blast
qed

end
